theory Spec2Isabelle
  imports Complex_Main
begin

section \<open>Numbers, errors and loops\<close>

text \<open>
  The simulator computes on C++ \<open>double\<close>s. They are modelled as real numbers: rounding,
  overflow and non-finite inputs are outside the model. The one place where a \<open>double\<close>
  computation leaves the reals on finite inputs is a division by zero (IEEE 754 yields NaN
  or an infinity and the program carries on with it). The model makes that event an
  outcome of its own, \<open>DivByZero\<close>: a result \<open>Inl DivByZero\<close> says that the C++ code evaluated
  a quotient whose divisor was zero, so that its output holds values that are no real
  numbers. \<open>OutOfBounds\<close> is the outcome of reading a \<open>NumericVector\<close> past its end, which
  Rcpp's \<open>operator[]\<close> does not prevent.
\<close>

datatype error = DivByZero | OutOfBounds

type_synonym 'a result = "error + 'a"

definition ebind :: "'a result \<Rightarrow> ('a \<Rightarrow> 'b result) \<Rightarrow> 'b result" where
  "ebind m f = (case m of Inl e \<Rightarrow> Inl e | Inr v \<Rightarrow> f v)"

definition fdiv :: "real \<Rightarrow> real \<Rightarrow> real result" where
  "fdiv a b = (if b = 0 then Inl DivByZero else Inr (a / b))"

definition rd :: "real list \<Rightarrow> nat \<Rightarrow> real result" where
  "rd xs k = (if k < length xs then Inr (xs ! k) else Inl OutOfBounds)"

text \<open>
  \<open>for (int k = 0; k < n; k++) body\<close> is \<open>loop body [0..<n]\<close>: the body runs on each index
  in turn on the state the previous iteration left, and the first error ends the run.
\<close>

fun loop :: "(nat \<Rightarrow> 's \<Rightarrow> 's result) \<Rightarrow> nat list \<Rightarrow> 's \<Rightarrow> 's result" where
  "loop body [] s = Inr s"
| "loop body (k # ks) s = (case body k s of Inl e \<Rightarrow> Inl e | Inr s' \<Rightarrow> loop body ks s')"

text \<open>
  The same body run on every index against one fixed state, the results collected: what
  a loop computes when no iteration sees what another one wrote.
\<close>

fun collect :: "(nat \<Rightarrow> 'a result) \<Rightarrow> nat list \<Rightarrow> 'a list result" where
  "collect f [] = Inr []"
| "collect f (k # ks) =
     (case f k of Inl e \<Rightarrow> Inl e
      | Inr v \<Rightarrow> (case collect f ks of Inl e \<Rightarrow> Inl e | Inr vs \<Rightarrow> Inr (v # vs)))"

section \<open>Data\<close>

text \<open>
  A data frame of boids or predators has the columns \<open>x\<close>, \<open>y\<close>, \<open>vx\<close>, \<open>vy\<close>, all of
  \<open>nrows\<close> entries; it is modelled as the list of its rows, so that \<open>x[j]\<close> of the source
  is \<open>pos_x (bs ! j)\<close>. The columns are \<open>double\<close> vectors, which \<open>NumericVector x = boids["x"]\<close>
  wraps without copying: a write \<open>x[i] = ...\<close> is a write into the caller's frame.
  Of the frame of hazard areas only \<open>x\<close> and \<open>y\<close> are read; the radii come in a vector of
  their own, whose length is independent of the frame's.
\<close>

record agent =
  pos_x :: real
  pos_y :: real
  vel_x :: real
  vel_y :: real

record area =
  area_x :: real
  area_y :: real

type_synonym vec = "real \<times> real"

section \<open>The extended variant: \<open>update_boids_cpp\<close>\<close>

text \<open>The lambda \<open>limit\<close> (lines 55-62), which captures \<open>max_speed\<close>.\<close>

definition limit :: "real \<Rightarrow> vec \<Rightarrow> vec result" where
  "limit max_speed vec =
     (let mag = sqrt ((fst vec)\<^sup>2 + (snd vec)\<^sup>2)
      in if mag > max_speed
         then ebind (fdiv (fst vec) mag) (\<lambda>q0.
              ebind (fdiv (snd vec) mag) (\<lambda>q1.
              Inr (q0 * max_speed, q1 * max_speed)))
         else Inr vec)"

text \<open>The accumulators of one boid's scan of the flock (lines 67-69).\<close>

record flock_acc =
  sep :: vec
  ali :: vec
  coh :: vec
  sep_total :: nat
  ali_total :: nat
  coh_total :: nat

definition flock_acc0 :: flock_acc where
  "flock_acc0 = \<lparr>sep = (0, 0), ali = (0, 0), coh = (0, 0),
                  sep_total = 0, ali_total = 0, coh_total = 0\<rparr>"

text \<open>The body of the loop over the other boids \<open>j\<close> (lines 73-99).\<close>

definition scan_boid_cpp :: "agent list \<Rightarrow> real \<Rightarrow> nat \<Rightarrow> nat \<Rightarrow> flock_acc \<Rightarrow> flock_acc result" where
  "scan_boid_cpp bs neighbor_radius i j a =
     (if i = j then Inr a
      else
        let dx = pos_x (bs ! i) - pos_x (bs ! j);
            dy = pos_y (bs ! i) - pos_y (bs ! j);
            d = sqrt (dx * dx + dy * dy)
        in if d < neighbor_radius
           then ebind (fdiv dx d) (\<lambda>qx.
                ebind (fdiv dy d) (\<lambda>qy.
                Inr (a\<lparr>sep := (fst (sep a) + qx, snd (sep a) + qy),
                       sep_total := Suc (sep_total a),
                       ali := (fst (ali a) + vel_x (bs ! j), snd (ali a) + vel_y (bs ! j)),
                       ali_total := Suc (ali_total a),
                       coh := (fst (coh a) + pos_x (bs ! j), snd (coh a) + pos_y (bs ! j)),
                       coh_total := Suc (coh_total a)\<rparr>)))
           else Inr a)"

text \<open>The body of the loop over the predators \<open>k\<close> (lines 103-114).\<close>

definition scan_predator_cpp :: "agent list \<Rightarrow> agent list \<Rightarrow> real \<Rightarrow> nat \<Rightarrow> nat \<Rightarrow> vec \<Rightarrow> vec result" where
  "scan_predator_cpp bs predators predator_radius i k pred =
     (let dx = pos_x (bs ! i) - pos_x (predators ! k);
          dy = pos_y (bs ! i) - pos_y (predators ! k);
          d = sqrt (dx * dx + dy * dy)
      in if d < predator_radius
         then ebind (fdiv dx d) (\<lambda>qx.
              ebind (fdiv dy d) (\<lambda>qy.
              Inr (fst pred + qx, snd pred + qy)))
         else Inr pred)"

text \<open>
  The body of the loop over the hazard areas \<open>k\<close> (lines 118-129); the threshold
  \<open>area_radius[k]\<close> is read once the distance is known.
\<close>

definition scan_area_cpp :: "agent list \<Rightarrow> area list \<Rightarrow> real list \<Rightarrow> nat \<Rightarrow> nat \<Rightarrow> vec \<Rightarrow> vec result" where
  "scan_area_cpp bs areas area_radius i k ar =
     (let dx = pos_x (bs ! i) - area_x (areas ! k);
          dy = pos_y (bs ! i) - area_y (areas ! k);
          d = sqrt (dx * dx + dy * dy)
      in ebind (rd area_radius k) (\<lambda>r.
         if d < r
         then ebind (fdiv dx d) (\<lambda>qx.
              ebind (fdiv dy d) (\<lambda>qy.
              Inr (fst ar + qx, snd ar + qy)))
         else Inr ar))"

text \<open>
  \<open>v = limit(v); v -= velocity; v = limit(v)\<close>: the tail shared by the five steering
  rules (lines 138-141, 148-151, 160-163, 168-171, 176-179).
\<close>

definition steer_cpp :: "real \<Rightarrow> agent \<Rightarrow> vec \<Rightarrow> vec result" where
  "steer_cpp max_speed b v =
     ebind (limit max_speed v) (\<lambda>u. limit max_speed (fst u - vel_x b, snd u - vel_y b))"

text \<open>Separation and alignment (lines 135-152): the average over the neighbours, steered.\<close>

definition average_steer_cpp :: "real \<Rightarrow> agent \<Rightarrow> nat \<Rightarrow> vec \<Rightarrow> vec result" where
  "average_steer_cpp max_speed b cnt v =
     (if cnt > 0
      then ebind (fdiv (fst v) (real cnt)) (\<lambda>m0.
           ebind (fdiv (snd v) (real cnt)) (\<lambda>m1.
           steer_cpp max_speed b (m0, m1)))
      else Inr v)"

text \<open>Cohesion (lines 155-164): the average position, taken relative to the boid's own.\<close>

definition cohesion_steer_cpp :: "real \<Rightarrow> agent \<Rightarrow> nat \<Rightarrow> vec \<Rightarrow> vec result" where
  "cohesion_steer_cpp max_speed b cnt v =
     (if cnt > 0
      then ebind (fdiv (fst v) (real cnt)) (\<lambda>m0.
           ebind (fdiv (snd v) (real cnt)) (\<lambda>m1.
           steer_cpp max_speed b (m0 - pos_x b, m1 - pos_y b)))
      else Inr v)"

text \<open>Predator and area avoidance (lines 167-180).\<close>

definition avoid_steer_cpp :: "real \<Rightarrow> agent \<Rightarrow> vec \<Rightarrow> vec result" where
  "avoid_steer_cpp max_speed b v =
     (if sqrt ((fst v)\<^sup>2 + (snd v)\<^sup>2) > 0 then steer_cpp max_speed b v else Inr v)"

text \<open>
  Speed limiting (lines 197-201 here, lines 102-106 in the simple variant, lines 286-290
  for predators, where the bound is \<open>max_speed * pred_rel_speed\<close>): the same statements
  in the three routines.
\<close>

definition limit_speed :: "real \<Rightarrow> vec \<Rightarrow> vec result" where
  "limit_speed max_speed v =
     (let speed = sqrt (fst v * fst v + snd v * snd v)
      in if speed > max_speed
         then ebind (fdiv (fst v) speed) (\<lambda>q0.
              ebind (fdiv (snd v) speed) (\<lambda>q1.
              Inr (q0 * max_speed, q1 * max_speed)))
         else Inr v)"

text \<open>
  Rebound off the walls (lines 214-221, and lines 297-304 for predators): the velocity
  turns round, the position is clamped.
\<close>

definition rebound_axis_cpp :: "real \<Rightarrow> real \<times> real \<Rightarrow> real \<times> real" where
  "rebound_axis_cpp extent pv =
     (if fst pv < 0 \<or> fst pv > extent
      then (max 0 (min extent (fst pv)), - snd pv)
      else pv)"

definition rebound_cpp :: "real \<Rightarrow> real \<Rightarrow> agent \<Rightarrow> agent" where
  "rebound_cpp width height b =
     (let (x', vx') = rebound_axis_cpp width (pos_x b, vel_x b);
          (y', vy') = rebound_axis_cpp height (pos_y b, vel_y b)
      in \<lparr>pos_x = x', pos_y = y', vel_x = vx', vel_y = vy'\<rparr>)"

text \<open>
  The \<open>k\<close>-th call of \<open>rand()\<close> after \<open>srand\<close>, divided by \<open>RAND_MAX\<close>, is \<open>rnd k\<close>; boid \<open>i\<close>
  makes the calls \<open>2 * i\<close> and \<open>2 * i + 1\<close> (lines 204-205).
\<close>

definition perturb :: "(nat \<Rightarrow> real) \<Rightarrow> nat \<Rightarrow> vec \<Rightarrow> vec" where
  "perturb rnd i v =
     (fst v + (rnd (2 * i) - 0.5) * 0.1, snd v + (rnd (2 * i + 1) - 0.5) * 0.1)"

text \<open>
  One iteration of the loop over the boids (lines 65-222), up to the values it leaves in
  slot \<open>i\<close> of the four vectors. Every read goes to the frame \<open>bs\<close> as it is when the
  iteration starts.
\<close>

definition next_boid_cpp ::
  "(nat \<Rightarrow> real) \<Rightarrow> agent list \<Rightarrow> area list \<Rightarrow> real \<Rightarrow> real \<Rightarrow> real \<Rightarrow> real \<Rightarrow> real \<Rightarrow>
   real list \<Rightarrow> real \<Rightarrow> real \<Rightarrow> real \<Rightarrow> real \<Rightarrow> real \<Rightarrow> agent list \<Rightarrow> nat \<Rightarrow> agent result" where
  "next_boid_cpp rnd predators areas width height max_speed neighbor_radius predator_radius
     area_radius separation_weight alignment_weight cohesion_weight predator_avoid_weight
     area_avoid_weight bs i =
     ebind (loop (scan_boid_cpp bs neighbor_radius i) [0..<length bs] flock_acc0) (\<lambda>a.
     ebind (loop (scan_predator_cpp bs predators predator_radius i) [0..<length predators] (0, 0)) (\<lambda>pred.
     ebind (loop (scan_area_cpp bs areas area_radius i) [0..<length areas] (0, 0)) (\<lambda>ar.
     ebind (average_steer_cpp max_speed (bs ! i) (sep_total a) (sep a)) (\<lambda>sep'.
     ebind (average_steer_cpp max_speed (bs ! i) (ali_total a) (ali a)) (\<lambda>ali'.
     ebind (cohesion_steer_cpp max_speed (bs ! i) (coh_total a) (coh a)) (\<lambda>coh'.
     ebind (avoid_steer_cpp max_speed (bs ! i) pred) (\<lambda>pred'.
     ebind (avoid_steer_cpp max_speed (bs ! i) ar) (\<lambda>ar'.
     ebind (limit_speed max_speed
             (vel_x (bs ! i) + (fst sep' * separation_weight + fst ali' * alignment_weight
                + fst coh' * cohesion_weight + fst pred' * predator_avoid_weight
                + fst ar' * area_avoid_weight),
              vel_y (bs ! i) + (snd sep' * separation_weight + snd ali' * alignment_weight
                + snd coh' * cohesion_weight + snd pred' * predator_avoid_weight
                + snd ar' * area_avoid_weight))) (\<lambda>v.
     let w = perturb rnd i v
     in Inr (rebound_cpp width height
               \<lparr>pos_x = pos_x (bs ! i) + fst w, pos_y = pos_y (bs ! i) + snd w,
                vel_x = fst w, vel_y = snd w\<rparr>))))))))))"

text \<open>
  The iteration writes its values into slot \<open>i\<close> of \<open>x\<close>, \<open>y\<close>, \<open>vx\<close>, \<open>vy\<close> themselves
  (lines 184-221): the next iteration runs on the frame so changed.
\<close>

definition step_boid_cpp ::
  "(nat \<Rightarrow> real) \<Rightarrow> agent list \<Rightarrow> area list \<Rightarrow> real \<Rightarrow> real \<Rightarrow> real \<Rightarrow> real \<Rightarrow> real \<Rightarrow>
   real list \<Rightarrow> real \<Rightarrow> real \<Rightarrow> real \<Rightarrow> real \<Rightarrow> real \<Rightarrow> nat \<Rightarrow> agent list \<Rightarrow> agent list result" where
  "step_boid_cpp rnd predators areas width height max_speed neighbor_radius predator_radius
     area_radius separation_weight alignment_weight cohesion_weight predator_avoid_weight
     area_avoid_weight i bs =
     ebind (next_boid_cpp rnd predators areas width height max_speed neighbor_radius
              predator_radius area_radius separation_weight alignment_weight cohesion_weight
              predator_avoid_weight area_avoid_weight bs i)
       (\<lambda>b. Inr (bs[i := b]))"

text \<open>
  What a call leaves behind: the frame the caller passed for updating (the boids for the
  boid routines, the predators for \<open>update_predators_cpp\<close>) as it is after the call, and
  the frame returned. The other arguments are never assigned to by any of the routines.
\<close>

record outcome =
  caller :: "agent list"
  returned :: "agent list"

text \<open>
  \<open>update_boids_cpp\<close> (lines 13-231). The vectors written by the loop are the caller's,
  and the data frame returned (lines 225-230) is made of the same vectors.
\<close>

definition update_boids_cpp ::
  "(nat \<Rightarrow> real) \<Rightarrow> agent list \<Rightarrow> agent list \<Rightarrow> area list \<Rightarrow> real \<Rightarrow> real \<Rightarrow> real \<Rightarrow> real \<Rightarrow>
   real \<Rightarrow> real \<Rightarrow> real list \<Rightarrow> real \<Rightarrow> real \<Rightarrow> real \<Rightarrow> real \<Rightarrow> real \<Rightarrow> outcome result" where
  "update_boids_cpp rnd boids predators areas width height max_speed max_force neighbor_radius
     predator_radius area_radius separation_weight alignment_weight cohesion_weight
     predator_avoid_weight area_avoid_weight =
     ebind (loop (step_boid_cpp rnd predators areas width height max_speed neighbor_radius
                    predator_radius area_radius separation_weight alignment_weight
                    cohesion_weight predator_avoid_weight area_avoid_weight)
              [0..<length boids] boids)
       (\<lambda>bs. Inr \<lparr>caller = bs, returned = bs\<rparr>)"

section \<open>The simple variant: \<open>update_boids\<close>\<close>

text \<open>The accumulators of one boid's scan (lines 29-32).\<close>

record acc =
  sep_x :: real
  sep_y :: real
  ali_x :: real
  ali_y :: real
  coh_x :: real
  coh_y :: real
  sep_count :: nat
  ali_count :: nat
  coh_count :: nat

definition acc0 :: acc where
  "acc0 = \<lparr>sep_x = 0, sep_y = 0, ali_x = 0, ali_y = 0, coh_x = 0, coh_y = 0,
           sep_count = 0, ali_count = 0, coh_count = 0\<rparr>"

text \<open>The body of the loop over the other boids \<open>j\<close> (lines 35-56).\<close>

definition scan_boid :: "agent list \<Rightarrow> real \<Rightarrow> real \<Rightarrow> nat \<Rightarrow> nat \<Rightarrow> acc \<Rightarrow> acc" where
  "scan_boid bs separation_radius vision_radius i j a =
     (if i = j then a
      else
        let dx = pos_x (bs ! j) - pos_x (bs ! i);
            dy = pos_y (bs ! j) - pos_y (bs ! i);
            d = sqrt (dx * dx + dy * dy);
            a1 = (if d < separation_radius
                  then a\<lparr>sep_x := sep_x a - dx, sep_y := sep_y a - dy,
                         sep_count := Suc (sep_count a)\<rparr>
                  else a)
        in if d < vision_radius
           then a1\<lparr>ali_x := ali_x a1 + vel_x (bs ! j), ali_y := ali_y a1 + vel_y (bs ! j),
                   ali_count := Suc (ali_count a1),
                   coh_x := coh_x a1 + pos_x (bs ! j), coh_y := coh_y a1 + pos_y (bs ! j),
                   coh_count := Suc (coh_count a1)\<rparr>
           else a1)"

text \<open>\<open>std::max(-max_force, std::min(max_force, v))\<close>.\<close>

definition clamp_force :: "real \<Rightarrow> real \<Rightarrow> real" where
  "clamp_force max_force v = max (- max_force) (min max_force v)"

text \<open>
  Normalise, scale to \<open>max_speed\<close>, subtract the velocity, clamp each component: the
  inner block of the three rules (lines 60-68, 75-81, 88-94).
\<close>

definition seek :: "real \<Rightarrow> real \<Rightarrow> agent \<Rightarrow> vec \<Rightarrow> vec result" where
  "seek max_speed max_force b v =
     (let m = sqrt (fst v * fst v + snd v * snd v)
      in if m > 0
         then ebind (fdiv (fst v) m) (\<lambda>q0.
              ebind (fdiv (snd v) m) (\<lambda>q1.
              Inr (clamp_force max_force (q0 * max_speed - vel_x b),
                   clamp_force max_force (q1 * max_speed - vel_y b))))
         else Inr v)"

definition separation :: "real \<Rightarrow> real \<Rightarrow> agent \<Rightarrow> acc \<Rightarrow> vec result" where
  "separation max_speed max_force b a =
     (if sep_count a > 0 then seek max_speed max_force b (sep_x a, sep_y a)
      else Inr (sep_x a, sep_y a))"

definition alignment :: "real \<Rightarrow> real \<Rightarrow> agent \<Rightarrow> acc \<Rightarrow> vec result" where
  "alignment max_speed max_force b a =
     (if ali_count a > 0
      then ebind (fdiv (ali_x a) (real (ali_count a))) (\<lambda>m0.
           ebind (fdiv (ali_y a) (real (ali_count a))) (\<lambda>m1.
           seek max_speed max_force b (m0, m1)))
      else Inr (ali_x a, ali_y a))"

definition cohesion :: "real \<Rightarrow> real \<Rightarrow> agent \<Rightarrow> acc \<Rightarrow> vec result" where
  "cohesion max_speed max_force b a =
     (if coh_count a > 0
      then ebind (fdiv (coh_x a) (real (coh_count a))) (\<lambda>m0.
           ebind (fdiv (coh_y a) (real (coh_count a))) (\<lambda>m1.
           seek max_speed max_force b (m0 - pos_x b, m1 - pos_y b)))
      else Inr (coh_x a, coh_y a))"

text \<open>
  Border rebound on one axis (lines 113-120 for \<open>x\<close>, 121-128 for \<open>y\<close>): two tests in a
  row, the second one on what the first one left.
\<close>

definition rebound_axis :: "real \<Rightarrow> real \<times> real \<Rightarrow> real \<times> real" where
  "rebound_axis extent pv =
     (let pv1 = (if fst pv < 0 then (0, - snd pv * 0.9) else pv)
      in if fst pv1 > extent then (extent, - snd pv1 * 0.9) else pv1)"

definition rebound :: "real \<Rightarrow> real \<Rightarrow> agent \<Rightarrow> agent" where
  "rebound width height b =
     (let (x', vx') = rebound_axis width (pos_x b, vel_x b);
          (y', vy') = rebound_axis height (pos_y b, vel_y b)
      in \<lparr>pos_x = x', pos_y = y', vel_x = vx', vel_y = vy'\<rparr>)"

text \<open>
  One iteration of the loop over the boids (lines 27-129), up to the values it stores
  in slot \<open>i\<close> of \<open>new_x\<close>, \<open>new_y\<close>, \<open>new_vx\<close>, \<open>new_vy\<close>.
\<close>

definition next_boid ::
  "real \<Rightarrow> real \<Rightarrow> real \<Rightarrow> real \<Rightarrow> real \<Rightarrow> real \<Rightarrow> agent list \<Rightarrow> nat \<Rightarrow> agent result" where
  "next_boid max_speed max_force vision_radius separation_radius width height bs i =
     (let a = fold (scan_boid bs separation_radius vision_radius i) [0..<length bs] acc0
      in ebind (separation max_speed max_force (bs ! i) a) (\<lambda>s.
         ebind (alignment max_speed max_force (bs ! i) a) (\<lambda>al.
         ebind (cohesion max_speed max_force (bs ! i) a) (\<lambda>c.
         ebind (limit_speed max_speed
                 (vel_x (bs ! i) + fst s + fst al + fst c,
                  vel_y (bs ! i) + snd s + snd al + snd c)) (\<lambda>v.
         Inr (rebound width height
                \<lparr>pos_x = pos_x (bs ! i) + fst v, pos_y = pos_y (bs ! i) + snd v,
                 vel_x = fst v, vel_y = snd v\<rparr>))))))"

text \<open>The iteration reads the frame \<open>bs\<close> and writes slot \<open>i\<close> of the new vectors.\<close>

definition step_boid ::
  "real \<Rightarrow> real \<Rightarrow> real \<Rightarrow> real \<Rightarrow> real \<Rightarrow> real \<Rightarrow> agent list \<Rightarrow> nat \<Rightarrow> agent list \<Rightarrow>
   agent list result" where
  "step_boid max_speed max_force vision_radius separation_radius width height bs i new =
     ebind (next_boid max_speed max_force vision_radius separation_radius width height bs i)
       (\<lambda>b. Inr (new[i := b]))"

text \<open>
  \<open>update_boids\<close> (lines 8-138): the new vectors start as \<open>n\<close> zeros (lines 21-24) and are
  what the data frame returned is made of (lines 132-137).
\<close>

definition update_boids ::
  "agent list \<Rightarrow> real \<Rightarrow> real \<Rightarrow> real \<Rightarrow> real \<Rightarrow> real \<Rightarrow> real \<Rightarrow> outcome result" where
  "update_boids boids max_speed max_force vision_radius separation_radius width height =
     ebind (loop (step_boid max_speed max_force vision_radius separation_radius width height
                    boids)
              [0..<length boids]
              (replicate (length boids) \<lparr>pos_x = 0, pos_y = 0, vel_x = 0, vel_y = 0\<rparr>))
       (\<lambda>new. Inr \<lparr>caller = boids, returned = new\<rparr>)"

section \<open>The predators: \<open>update_predators_cpp\<close>\<close>


text \<open>Steering toward the closest boid (lines 274-283).\<close>

definition chase :: "agent list \<Rightarrow> agent \<Rightarrow> (real \<times> nat) option \<Rightarrow> vec result" where
  "chase bs p c =
     (case c of
        None \<Rightarrow> Inr (vel_x p, vel_y p)
      | Some (closest_dist, closest_boid) \<Rightarrow>
          let dx = pos_x (bs ! closest_boid) - pos_x p;
              dy = pos_y (bs ! closest_boid) - pos_y p;
              d = sqrt (dx * dx + dy * dy)
          in if d > 0
             then ebind (fdiv dx d) (\<lambda>qx.
                  ebind (fdiv dy d) (\<lambda>qy.
                  Inr (vel_x p + qx * 0.05, vel_y p + qy * 0.05)))
             else Inr (vel_x p, vel_y p))"






section \<open>Notions the properties are stated with\<close>

text \<open>The Euclidean length of a vector.\<close>

definition magnitude :: "vec \<Rightarrow> real" where
  "magnitude v = sqrt (fst v * fst v + snd v * snd v)"

text \<open>A position inside the closed rectangle \<open>[0, width] \<times> [0, height]\<close>.\<close>

definition in_domain :: "real \<Rightarrow> real \<Rightarrow> agent \<Rightarrow> bool" where
  "in_domain width height b \<longleftrightarrow>
     0 \<le> pos_x b \<and> pos_x b \<le> width \<and> 0 \<le> pos_y b \<and> pos_y b \<le> height"

text \<open>The Euclidean distance of two agents.\<close>

definition distance :: "agent \<Rightarrow> agent \<Rightarrow> real" where
  "distance a b = sqrt ((pos_x a - pos_x b)\<^sup>2 + (pos_y a - pos_y b)\<^sup>2)"

text \<open>The random source whose every draw \<open>rand() / RAND_MAX\<close> is the same number.\<close>

definition const_draws :: "real \<Rightarrow> nat \<Rightarrow> real" where
  "const_draws r k = r"

text \<open>
  Speed limiting as the specification words it: a velocity longer than \<open>max_speed\<close> is
  rescaled to that length, its direction kept; any other velocity is left alone.
\<close>

definition rescaled :: "real \<Rightarrow> vec \<Rightarrow> vec" where
  "rescaled max_speed v =
     (if max_speed < magnitude v
      then (max_speed / magnitude v * fst v, max_speed / magnitude v * snd v)
      else v)"

section \<open>Basic facts\<close>

lemma ebind_Inr [simp]: "ebind (Inr v) f = f v"
  by (simp add: ebind_def)

lemma ebind_Inl [simp]: "ebind (Inl e) f = Inl e"
  by (simp add: ebind_def)

lemma ebind_eq_Inr: "ebind m f = Inr r \<longleftrightarrow> (\<exists>v. m = Inr v \<and> f v = Inr r)"
  by (cases m) simp_all

lemma ebind_no_error:
  "m \<noteq> Inl e \<Longrightarrow> (\<And>v. f v \<noteq> Inl e) \<Longrightarrow> ebind m f \<noteq> Inl e"
  by (cases m) simp_all

lemma fdiv_nonzero [simp]: "b \<noteq> 0 \<Longrightarrow> fdiv a b = Inr (a / b)"
  by (simp add: fdiv_def)

lemma fdiv_zero [simp]: "fdiv a 0 = Inl DivByZero"
  by (simp add: fdiv_def)

section \<open>Loops\<close>

lemma loop_append:
  "loop body (ks @ ks') s = ebind (loop body ks s) (loop body ks')"
  by (induction ks arbitrary: s) (auto split: sum.splits)

lemma loop_single: "loop body [k] = body k"
  by (rule ext) (simp split: sum.splits)

lemma loop_no_error:
  "(\<And>k s. k \<in> set ks \<Longrightarrow> body k s \<noteq> Inl e) \<Longrightarrow> loop body ks s \<noteq> Inl e"
proof (induction ks arbitrary: s)
  case Nil
  then show ?case by simp
next
  case (Cons k ks)
  show ?case
  proof (cases "body k s")
    case (Inl e')
    with Cons.prems [of k s] show ?thesis by auto
  next
    case (Inr s')
    with Cons show ?thesis by simp
  qed
qed

lemma collect_append:
  "collect f (ks @ ks') =
     ebind (collect f ks) (\<lambda>vs. ebind (collect f ks') (\<lambda>ws. Inr (vs @ ws)))"
  by (induction ks) (auto simp: ebind_def split: sum.splits)

lemma collect_length: "collect f ks = Inr vs \<Longrightarrow> length vs = length ks"
  by (induction ks arbitrary: vs) (auto split: sum.splits)

lemma collect_nth:
  "collect f ks = Inr vs \<Longrightarrow> i < length ks \<Longrightarrow> f (ks ! i) = Inr (vs ! i)"
proof (induction ks arbitrary: vs i)
  case Nil
  then show ?case by simp
next
  case (Cons k ks)
  then show ?case by (cases i) (auto split: sum.splits)
qed

lemma collect_total:
  "(\<And>k. k \<in> set ks \<Longrightarrow> \<exists>v. f k = Inr v) \<Longrightarrow> \<exists>vs. collect f ks = Inr vs"
proof (induction ks)
  case Nil
  then show ?case by simp
next
  case (Cons k ks)
  from Cons.prems [of k] obtain v where "f k = Inr v" by auto
  moreover from Cons obtain vs where "collect f ks = Inr vs" by auto
  ultimately show ?case by simp
qed

lemma collect_all:
  assumes "collect f ks = Inr vs" and "\<And>k v. f k = Inr v \<Longrightarrow> P v"
  shows "\<forall>v \<in> set vs. P v"
  using assms(1)
proof (induction ks arbitrary: vs)
  case Nil
  then show ?case by simp
next
  case (Cons k ks)
  then show ?case using assms(2) by (auto split: sum.splits)
qed

text \<open>
  A loop whose iteration \<open>i\<close> reads, of the vector it writes, slot \<open>i\<close> only and writes
  slot \<open>i\<close> only computes every slot from the vector it started on.
\<close>

lemma loop_slots:
  "k \<le> length s0 \<Longrightarrow>
   loop (\<lambda>i s. ebind (f i (s ! i)) (\<lambda>b. Inr (s[i := b]))) [0..<k] s0
   = ebind (collect (\<lambda>i. f i (s0 ! i)) [0..<k]) (\<lambda>vs. Inr (vs @ drop k s0))"
proof (induction k)
  case 0
  then show ?case by simp
next
  case (Suc k)
  let ?body = "\<lambda>i s. ebind (f i (s ! i)) (\<lambda>b. Inr (s[i := b]))"
  let ?g = "\<lambda>i. f i (s0 ! i)"
  from Suc have IH: "loop ?body [0..<k] s0 = ebind (collect ?g [0..<k]) (\<lambda>vs. Inr (vs @ drop k s0))"
    and k: "k < length s0" by simp_all
  show ?case
  proof (cases "collect ?g [0..<k]")
    case (Inl e)
    then show ?thesis using IH by (simp add: loop_append collect_append)
  next
    case (Inr vs)
    then have len: "length vs = k" using collect_length by fastforce
    have nth: "(vs @ drop k s0) ! k = s0 ! k" using len k by (simp add: nth_append)
    have upd: "(vs @ drop k s0)[k := b] = (vs @ [b]) @ drop (Suc k) s0" for b
      using len k by (simp add: list_update_append Cons_nth_drop_Suc [symmetric])
    show ?thesis
    proof (cases "f k (s0 ! k)")
      case (Inl e)
      then show ?thesis using IH Inr nth by (simp add: loop_append collect_append)
    next
      case b: (Inr b)
      then show ?thesis using IH Inr nth upd by (simp add: loop_append collect_append)
    qed
  qed
qed

text \<open>
  A loop whose iteration \<open>i\<close> writes slot \<open>i\<close> with a value that has a property leaves
  the property in every slot it has passed.
\<close>

lemma loop_writes:
  assumes "\<And>s i b. g s i = Inr b \<Longrightarrow> P b"
    and "loop (\<lambda>i s. ebind (g s i) (\<lambda>b. Inr (s[i := b]))) [0..<k] s0 = Inr s'"
  shows "length s' = length s0 \<and> (\<forall>i<k. i < length s0 \<longrightarrow> P (s' ! i))"
  using assms(2)
proof (induction k arbitrary: s')
  case 0
  then show ?case by simp
next
  case (Suc k)
  let ?body = "\<lambda>i s. ebind (g s i) (\<lambda>b. Inr (s[i := b]))"
  from Suc.prems have "ebind (loop ?body [0..<k] s0) (?body k) = Inr s'"
    by (simp add: loop_append loop_single del: loop.simps)
  then obtain s1 where s1: "loop ?body [0..<k] s0 = Inr s1"
    and last: "?body k s1 = Inr s'"
    unfolding ebind_eq_Inr [of "loop ?body [0..<k] s0"] by blast
  from last obtain b where b: "g s1 k = Inr b" and s': "s' = s1[k := b]"
    by (auto simp: ebind_eq_Inr)
  from Suc.IH [OF s1] have len: "length s1 = length s0"
    and before: "\<forall>i<k. i < length s0 \<longrightarrow> P (s1 ! i)" by simp_all
  have "P (s' ! i)" if "i < Suc k" "i < length s0" for i
  proof (cases "i = k")
    case True
    with that len show ?thesis by (simp add: s' assms(1) [OF b])
  next
    case False
    with that before show ?thesis by (simp add: s')
  qed
  with len show ?case by (simp add: s')
qed

section \<open>Square roots, magnitudes and distances\<close>

text \<open>Comparisons with a square root, decided on the squares.\<close>

lemma sqrt_less_iff_sq: "0 < y \<Longrightarrow> sqrt x < y \<longleftrightarrow> x < y\<^sup>2"
  by (metis real_sqrt_less_iff real_sqrt_abs abs_of_pos)

lemma less_sqrt_iff_sq: "0 \<le> y \<Longrightarrow> y < sqrt x \<longleftrightarrow> y\<^sup>2 < x"
  by (metis real_sqrt_less_iff real_sqrt_abs abs_of_nonneg)

lemma sqrt_25: "sqrt 25 = 5"
  using real_sqrt_abs2 [of 5] by simp

lemma magnitude_nonneg: "0 \<le> magnitude v"
  by (simp add: magnitude_def)

lemma magnitude_sq: "magnitude v * magnitude v = fst v * fst v + snd v * snd v"
  by (simp add: magnitude_def)

lemma magnitude_scale: "0 \<le> c \<Longrightarrow> magnitude (c * a, c * b) = c * magnitude (a, b)"
proof -
  assume c: "0 \<le> c"
  have "c * a * (c * a) + c * b * (c * b) = c\<^sup>2 * (a * a + b * b)"
    by (simp add: power2_eq_square algebra_simps)
  then show ?thesis
    using c by (simp add: magnitude_def real_sqrt_mult)
qed

lemma magnitude_mono:
  assumes "\<bar>a'\<bar> \<le> \<bar>a\<bar>" "\<bar>b'\<bar> \<le> \<bar>b\<bar>"
  shows "magnitude (a', b') \<le> magnitude (a, b)"
proof -
  have "a' * a' \<le> a * a" "b' * b' \<le> b * b"
    using assms by (simp_all add: abs_le_square_iff power2_eq_square)
  then show ?thesis
    by (simp add: magnitude_def)
qed

lemma magnitude_triangle:
  "magnitude (a + c, b + d) \<le> magnitude (a, b) + magnitude (c, d)"
  using real_sqrt_sum_squares_triangle_ineq [of a c b d]
  by (simp add: magnitude_def power2_eq_square)

lemma short_vector: "\<bar>a\<bar> \<le> 5 \<Longrightarrow> \<bar>b\<bar> \<le> 5 \<Longrightarrow> sqrt (a\<^sup>2 + b\<^sup>2) \<le> 10"
  using sqrt_sum_squares_le_sum_abs [of a b] by simp

lemma unit_components:
  assumes "d = sqrt (dx * dx + dy * dy)" "0 < d"
  shows "\<bar>dx / d\<bar> \<le> 1" "\<bar>dy / d\<bar> \<le> 1"
proof -
  have "\<bar>dx\<bar> \<le> d" "\<bar>dy\<bar> \<le> d"
    unfolding assms(1) by (simp_all add: real_le_rsqrt power2_eq_square)
  with assms(2) show "\<bar>dx / d\<bar> \<le> 1" "\<bar>dy / d\<bar> \<le> 1"
    by simp_all
qed


lemma distance_cpp:
  "sqrt ((pos_x a - pos_x b) * (pos_x a - pos_x b) + (pos_y a - pos_y b) * (pos_y a - pos_y b))
   = distance a b"
  by (simp add: distance_def power2_eq_square)


section \<open>The stages of a tick\<close>

text \<open>Vectors that the limits leave alone.\<close>

lemma limit_id: "sqrt ((fst v)\<^sup>2 + (snd v)\<^sup>2) \<le> max_speed \<Longrightarrow> limit max_speed v = Inr v"
  by (simp add: limit_def Let_def)

lemma limit_speed_id: "magnitude v \<le> max_speed \<Longrightarrow> limit_speed max_speed v = Inr v"
  by (simp add: limit_speed_def Let_def magnitude_def)

lemma steer_cpp_short:
  assumes "\<bar>a\<bar> \<le> 5" "\<bar>b\<bar> \<le> 5"
  shows "steer_cpp 10 \<lparr>pos_x = x, pos_y = y, vel_x = 0, vel_y = 0\<rparr> (a, b) = Inr (a, b)"
  using short_vector [OF assms] by (simp add: steer_cpp_def limit_id)

text \<open>Speed limiting under a bound that is not negative.\<close>

lemma limit_speed_value:
  assumes "0 \<le> max_speed"
  shows "limit_speed max_speed v
         = Inr (if max_speed < magnitude v
                then (max_speed / magnitude v * fst v, max_speed / magnitude v * snd v)
                else v)"
proof (cases "max_speed < magnitude v")
  case True
  with assms have "magnitude v \<noteq> 0" by simp
  with True show ?thesis
    by (simp add: limit_speed_def Let_def magnitude_def [symmetric])
next
  case False
  then show ?thesis
    by (simp add: limit_speed_def Let_def magnitude_def [symmetric])
qed

lemma limit_speed_magnitude:
  assumes "0 \<le> max_speed"
  shows "magnitude (if max_speed < magnitude v
                then (max_speed / magnitude v * fst v, max_speed / magnitude v * snd v)
                else v) = min (magnitude v) max_speed"
proof (cases "max_speed < magnitude v")
  case True
  with assms have pos: "0 < magnitude v" by simp
  have "magnitude (max_speed / magnitude v * fst v, max_speed / magnitude v * snd v)
        = max_speed / magnitude v * magnitude (fst v, snd v)"
    using assms pos by (intro magnitude_scale) simp
  also have "\<dots> = max_speed" using pos by simp
  finally show ?thesis using True by simp
next
  case False
  then show ?thesis by simp
qed

lemma limit_speed_bound:
  assumes "0 \<le> max_speed" "limit_speed max_speed u = Inr v"
  shows "magnitude v \<le> max_speed"
  using assms limit_speed_magnitude [OF assms(1), of u]
  by (simp add: limit_speed_value)

text \<open>The scan of a boid that is near.\<close>

lemma scan_boid_cpp_near:
  assumes "i \<noteq> j" "0 < distance (bs ! i) (bs ! j)" "distance (bs ! i) (bs ! j) < neighbor_radius"
  shows "scan_boid_cpp bs neighbor_radius i j c =
      Inr (c\<lparr>sep := (fst (sep c) + (pos_x (bs ! i) - pos_x (bs ! j)) / distance (bs ! i) (bs ! j),
                     snd (sep c) + (pos_y (bs ! i) - pos_y (bs ! j)) / distance (bs ! i) (bs ! j)),
             sep_total := Suc (sep_total c),
             ali := (fst (ali c) + vel_x (bs ! j), snd (ali c) + vel_y (bs ! j)),
             ali_total := Suc (ali_total c),
             coh := (fst (coh c) + pos_x (bs ! j), snd (coh c) + pos_y (bs ! j)),
             coh_total := Suc (coh_total c)\<rparr>)"
  using assms by (simp add: scan_boid_cpp_def Let_def distance_cpp)

text \<open>The rebound, axis by axis.\<close>

lemma rebound_fields:
  "rebound width height b =
     \<lparr>pos_x = fst (rebound_axis width (pos_x b, vel_x b)),
      pos_y = fst (rebound_axis height (pos_y b, vel_y b)),
      vel_x = snd (rebound_axis width (pos_x b, vel_x b)),
      vel_y = snd (rebound_axis height (pos_y b, vel_y b))\<rparr>"
  by (simp add: rebound_def case_prod_beta)

lemma rebound_cpp_fields:
  "rebound_cpp width height b =
     \<lparr>pos_x = fst (rebound_axis_cpp width (pos_x b, vel_x b)),
      pos_y = fst (rebound_axis_cpp height (pos_y b, vel_y b)),
      vel_x = snd (rebound_axis_cpp width (pos_x b, vel_x b)),
      vel_y = snd (rebound_axis_cpp height (pos_y b, vel_y b))\<rparr>"
  by (simp add: rebound_cpp_def case_prod_beta)

lemma rebound_axis_velocity: "\<bar>snd (rebound_axis extent (p, v))\<bar> \<le> \<bar>v\<bar>"
  by (simp add: rebound_axis_def Let_def abs_mult)

lemma rebound_axis_cpp_velocity: "\<bar>snd (rebound_axis_cpp extent (p, v))\<bar> = \<bar>v\<bar>"
  by (simp add: rebound_axis_cpp_def)

lemma rebound_velocity:
  "magnitude (vel_x (rebound width height b), vel_y (rebound width height b))
   \<le> magnitude (vel_x b, vel_y b)"
  unfolding rebound_fields by (simp add: magnitude_mono rebound_axis_velocity)

lemma rebound_cpp_velocity:
  "magnitude (vel_x (rebound_cpp width height b), vel_y (rebound_cpp width height b))
   = magnitude (vel_x b, vel_y b)"
  unfolding rebound_cpp_fields
  by (intro antisym magnitude_mono) (simp_all add: rebound_axis_cpp_velocity)

lemma rebound_axis_position:
  "0 \<le> extent \<Longrightarrow> 0 \<le> fst (rebound_axis extent pv) \<and> fst (rebound_axis extent pv) \<le> extent"
  by (simp add: rebound_axis_def Let_def)

lemma rebound_axis_cpp_position:
  "0 \<le> extent \<Longrightarrow>
   0 \<le> fst (rebound_axis_cpp extent pv) \<and> fst (rebound_axis_cpp extent pv) \<le> extent"
  by (simp add: rebound_axis_cpp_def)

lemma rebound_in_domain:
  "0 \<le> width \<Longrightarrow> 0 \<le> height \<Longrightarrow> in_domain width height (rebound width height b)"
  unfolding rebound_fields by (simp add: in_domain_def rebound_axis_position)

lemma rebound_cpp_in_domain:
  "0 \<le> width \<Longrightarrow> 0 \<le> height \<Longrightarrow> in_domain width height (rebound_cpp width height b)"
  unfolding rebound_cpp_fields by (simp add: in_domain_def rebound_axis_cpp_position)

text \<open>What an iteration returns is what the rebound returns.\<close>

lemma next_boid_shape:
  assumes "next_boid max_speed max_force vision_radius separation_radius width height bs i = Inr b"
  shows "\<exists>u v. limit_speed max_speed u = Inr v \<and>
           b = rebound width height
                 \<lparr>pos_x = pos_x (bs ! i) + fst v, pos_y = pos_y (bs ! i) + snd v,
                  vel_x = fst v, vel_y = snd v\<rparr>"
  using assms unfolding next_boid_def Let_def ebind_eq_Inr by blast

lemma next_boid_cpp_shape:
  assumes "next_boid_cpp rnd predators areas width height max_speed neighbor_radius
     predator_radius area_radius separation_weight alignment_weight cohesion_weight
     predator_avoid_weight area_avoid_weight bs i = Inr b"
  shows "\<exists>u v. limit_speed max_speed u = Inr v \<and>
           b = rebound_cpp width height
                 \<lparr>pos_x = pos_x (bs ! i) + fst (perturb rnd i v),
                  pos_y = pos_y (bs ! i) + snd (perturb rnd i v),
                  vel_x = fst (perturb rnd i v), vel_y = snd (perturb rnd i v)\<rparr>"
  using assms unfolding next_boid_cpp_def Let_def ebind_eq_Inr by blast

text \<open>An iteration of the extended variant, stage by stage.\<close>

lemma next_boid_cpp_stages:
  assumes "loop (scan_boid_cpp bs neighbor_radius i) [0..<length bs] flock_acc0 = Inr a"
    and "loop (scan_predator_cpp bs predators predator_radius i) [0..<length predators] (0, 0)
         = Inr pred"
    and "loop (scan_area_cpp bs areas area_radius i) [0..<length areas] (0, 0) = Inr ar"
    and "average_steer_cpp max_speed (bs ! i) (sep_total a) (sep a) = Inr sep'"
    and "average_steer_cpp max_speed (bs ! i) (ali_total a) (ali a) = Inr ali'"
    and "cohesion_steer_cpp max_speed (bs ! i) (coh_total a) (coh a) = Inr coh'"
    and "avoid_steer_cpp max_speed (bs ! i) pred = Inr pred'"
    and "avoid_steer_cpp max_speed (bs ! i) ar = Inr ar'"
    and "limit_speed max_speed
             (vel_x (bs ! i) + (fst sep' * separation_weight + fst ali' * alignment_weight
                + fst coh' * cohesion_weight + fst pred' * predator_avoid_weight
                + fst ar' * area_avoid_weight),
              vel_y (bs ! i) + (snd sep' * separation_weight + snd ali' * alignment_weight
                + snd coh' * cohesion_weight + snd pred' * predator_avoid_weight
                + snd ar' * area_avoid_weight)) = Inr v"
  shows "next_boid_cpp rnd predators areas width height max_speed neighbor_radius
           predator_radius area_radius separation_weight alignment_weight cohesion_weight
           predator_avoid_weight area_avoid_weight bs i
         = Inr (rebound_cpp width height
                 \<lparr>pos_x = pos_x (bs ! i) + fst (perturb rnd i v),
                  pos_y = pos_y (bs ! i) + snd (perturb rnd i v),
                  vel_x = fst (perturb rnd i v), vel_y = snd (perturb rnd i v)\<rparr>)"
  by (simp add: next_boid_cpp_def assms Let_def)

text \<open>The definitions and facts that evaluate the extended variant on given numbers.\<close>

lemmas eval_cpp = update_boids_cpp_def step_boid_cpp_def next_boid_cpp_def scan_boid_cpp_def
      flock_acc0_def average_steer_cpp_def cohesion_steer_cpp_def avoid_steer_cpp_def
      steer_cpp_def limit_def limit_speed_def perturb_def rebound_cpp_def rebound_axis_cpp_def
      Let_def sqrt_less_iff_sq less_sqrt_iff_sq power2_eq_square

text \<open>
  The simple variant writes into vectors of its own, so every boid's new state is
  computed from the frame the call received: the loop is the collection of \<open>next_boid\<close>
  on that frame.
\<close>

lemma update_boids_reads_input_only:
  "update_boids boids max_speed max_force vision_radius separation_radius width height
   = ebind (collect (next_boid max_speed max_force vision_radius separation_radius width height
                       boids) [0..<length boids])
       (\<lambda>new. Inr \<lparr>caller = boids, returned = new\<rparr>)"
proof -
  let ?f = "\<lambda>i (b::agent). next_boid max_speed max_force vision_radius separation_radius width
                            height boids i"
  let ?z = "\<lparr>pos_x = 0, pos_y = 0, vel_x = 0, vel_y = 0\<rparr>"
  have step: "step_boid max_speed max_force vision_radius separation_radius width height boids
    = (\<lambda>i s. ebind (?f i (s ! i)) (\<lambda>b. Inr (s[i := b])))"
    by (intro ext) (simp add: step_boid_def)
  have "loop (\<lambda>i s. ebind (?f i (s ! i)) (\<lambda>b. Inr (s[i := b]))) [0..<length boids]
          (replicate (length boids) ?z)
        = ebind (collect (\<lambda>i. ?f i (replicate (length boids) ?z ! i)) [0..<length boids])
            (\<lambda>vs. Inr (vs @ drop (length boids) (replicate (length boids) ?z)))"
    by (rule loop_slots) simp
  then show ?thesis
    unfolding update_boids_def step by (auto simp: ebind_def split: sum.splits)
qed

section \<open>What the scan of a boid reads\<close>

text \<open>
  C1, evaluated where it fails. The extended variant runs iteration \<open>i\<close> on the frame that
  the iterations before it have written. Two boids at the same height, \<open>3.5\<close> apart, the
  first moving toward the second at speed \<open>1\<close>, \<open>neighbor_radius = 3\<close>, separation the only
  rule with a weight: at the start of the tick neither is a neighbour of the other.
  Whatever the random draws are, boid \<open>0\<close> is moved to within \<open>3\<close> of boid \<open>1\<close> first,
  the scan of boid \<open>1\<close> reads that new position and steers away from it, and boid \<open>1\<close> is
  returned faster and further to the right than \<open>next_boid_cpp\<close> computes it from the
  positions and velocities at the start of the tick, where it has no neighbour.
\<close>

theorem later_boid_reads_updated_state:
  assumes draws: "\<forall>k. 0 \<le> rnd k \<and> rnd k \<le> 1"
  shows "\<exists>b0 b1.
           update_boids_cpp rnd
             [\<lparr>pos_x = 0, pos_y = 2, vel_x = 1, vel_y = 0\<rparr>,
              \<lparr>pos_x = 3.5, pos_y = 2, vel_x = 0, vel_y = 0\<rparr>] [] [] 100 100 10 1 3 1 []
             1 0 0 0 0
           = Inr \<lparr>caller = [b0, b1], returned = [b0, b1]\<rparr>
         \<and> next_boid_cpp rnd [] [] 100 100 10 3 1 [] 1 0 0 0 0
             [\<lparr>pos_x = 0, pos_y = 2, vel_x = 1, vel_y = 0\<rparr>,
              \<lparr>pos_x = 3.5, pos_y = 2, vel_x = 0, vel_y = 0\<rparr>] 1
           = Inr \<lparr>pos_x = 3.5 + (rnd 2 - 0.5) * 0.1, pos_y = 2 + (rnd 3 - 0.5) * 0.1,
                  vel_x = (rnd 2 - 0.5) * 0.1, vel_y = (rnd 3 - 0.5) * 0.1\<rparr>
         \<and> (rnd 2 - 0.5) * 0.1 < vel_x b1
         \<and> 3.5 + (rnd 2 - 0.5) * 0.1 < pos_x b1"
proof -
  define p0 p1 p2 p3 where "p0 = (rnd 0 - 0.5) * 0.1" and "p1 = (rnd 1 - 0.5) * 0.1"
    and "p2 = (rnd 2 - 0.5) * 0.1" and "p3 = (rnd 3 - 0.5) * 0.1"
  note p_defs = p0_def p1_def p2_def p3_def
  have pb: "- (1 / 20) \<le> p0" "p0 \<le> 1 / 20" "- (1 / 20) \<le> p1" "p1 \<le> 1 / 20"
    "- (1 / 20) \<le> p2" "p2 \<le> 1 / 20" "- (1 / 20) \<le> p3" "p3 \<le> 1 / 20"
    using draws [rule_format, of 0] draws [rule_format, of 1] draws [rule_format, of 2]
      draws [rule_format, of 3] by (simp_all add: p_defs)
  have pa: "\<bar>p1\<bar> \<le> \<bar>1 / 20\<bar>"
    using pb by linarith
  have perturb_p: "perturb rnd 0 v = (fst v + p0, snd v + p1)"
    "perturb rnd 1 v = (fst v + p2, snd v + p3)"
    "perturb rnd (Suc 0) v = (fst v + p2, snd v + p3)" for v
    by (simp_all add: perturb_def p_defs numeral_2_eq_2 numeral_3_eq_3)
  note eval = update_boids_cpp_def step_boid_cpp_def next_boid_cpp_def scan_boid_cpp_def
      flock_acc0_def average_steer_cpp_def cohesion_steer_cpp_def avoid_steer_cpp_def
      steer_cpp_def limit_def limit_speed_def perturb_p rebound_cpp_def rebound_axis_cpp_def
      Let_def sqrt_less_iff_sq less_sqrt_iff_sq power2_eq_square
  define B0 where "B0 = \<lparr>pos_x = 0, pos_y = 2, vel_x = 1, vel_y = (0::real)\<rparr>"
  define B1 where "B1 = \<lparr>pos_x = 3.5, pos_y = 2, vel_x = 0, vel_y = (0::real)\<rparr>"
  define b0 where "b0 = \<lparr>pos_x = 1 + p0, pos_y = 2 + p1, vel_x = 1 + p0, vel_y = p1\<rparr>"
  have step0: "next_boid_cpp rnd [] [] 100 100 10 3 1 [] 1 0 0 0 0 [B0, B1] 0 = Inr b0"
    using pb by (simp add: eval b0_def B0_def B1_def)
  have sync1: "next_boid_cpp rnd [] [] 100 100 10 3 1 [] 1 0 0 0 0 [B0, B1] 1
     = Inr \<lparr>pos_x = 3.5 + p2, pos_y = 2 + p3, vel_x = p2, vel_y = p3\<rparr>"
    using pb by (simp add: eval B0_def B1_def)
  define dx dy d where "dx = pos_x B1 - pos_x b0" and "dy = pos_y B1 - pos_y b0"
    and "d = distance B1 b0"
  have dx: "dx = 5 / 2 - p0" and dy: "dy = - p1"
    by (simp_all add: dx_def dy_def B1_def b0_def)
  have d: "d = sqrt (dx * dx + dy * dy)"
    by (simp add: d_def dx_def dy_def distance_def power2_eq_square)
  have "dx * dx \<le> (51 / 20) * (51 / 20)"
    using pb by (intro mult_mono) (simp_all add: dx)
  moreover have "dy * dy \<le> (1 / 20) * (1 / 20)"
  proof -
    have "\<bar>dy\<bar> \<le> \<bar>1 / 20\<bar>"
      unfolding dy abs_minus_cancel by (rule pa)
    then have "dy\<^sup>2 \<le> (1 / 20)\<^sup>2"
      by (simp only: abs_le_square_iff)
    then show ?thesis
      by (simp only: power2_eq_square)
  qed
  ultimately have lt: "dx * dx + dy * dy < 9" by simp
  have "0 < dx" using pb by (simp add: dx)
  then have "0 < dx * dx" by simp
  moreover have "0 \<le> dy * dy" by simp
  ultimately have pos: "0 < dx * dx + dy * dy" by linarith
  have dpos: "0 < d" and dlt: "d < 3"
    using pos lt by (simp_all add: d sqrt_less_iff_sq)
  define ux uy where "ux = dx / d" and "uy = dy / d"
  have ub: "\<bar>ux\<bar> \<le> 1" "\<bar>uy\<bar> \<le> 1"
    unfolding ux_def uy_def by (rule unit_components [OF d dpos])+
  have uxpos: "0 < ux"
    using \<open>0 < dx\<close> dpos by (simp add: ux_def)
  define A where "A = \<lparr>sep = (ux, uy), ali = (1 + p0, p1), coh = (1 + p0, 2 + p1),
                         sep_total = 1, ali_total = 1, coh_total = 1\<rparr>"
  have near: "scan_boid_cpp [b0, B1] 3 1 0 flock_acc0 = Inr A"
    using scan_boid_cpp_near [of 1 0 "[b0, B1]" 3 flock_acc0] dpos dlt
    by (simp add: d_def ux_def uy_def dx_def dy_def A_def flock_acc0_def b0_def)
  have self: "scan_boid_cpp [b0, B1] 3 1 1 A = Inr A"
    by (simp add: scan_boid_cpp_def)
  have idx: "[0..<length [b0, B1]] = [0, 1]"
    by (simp add: upt_rec)
  have s1: "loop (scan_boid_cpp [b0, B1] 3 1) [0..<length [b0, B1]] flock_acc0 = Inr A"
    unfolding idx by (simp only: loop.simps near self sum.case)
  have s2: "loop (scan_predator_cpp [b0, B1] [] 1 1) [0..<length ([]::agent list)] (0, 0)
            = Inr (0, 0)"
    by simp
  have s3: "loop (scan_area_cpp [b0, B1] [] [] 1) [0..<length ([]::area list)] (0, 0)
            = Inr (0, 0)"
    by simp
  have B1: "[b0, B1] ! 1 = B1" "pos_x B1 = 7 / 2" "pos_y B1 = 2" "vel_x B1 = 0" "vel_y B1 = 0"
    by (simp_all add: B1_def)
  have st: "steer_cpp 10 B1 (a, b) = Inr (a, b)" if "\<bar>a\<bar> \<le> 5" "\<bar>b\<bar> \<le> 5" for a b
    unfolding B1_def by (rule steer_cpp_short [OF that])
  have small: "\<bar>ux\<bar> \<le> 5" "\<bar>uy\<bar> \<le> 5" "\<bar>1 + p0\<bar> \<le> 5" "\<bar>p1\<bar> \<le> 5"
    "\<bar>p0 - 5 / 2\<bar> \<le> 5"
    using ub pb by linarith+
  have s4: "average_steer_cpp 10 ([b0, B1] ! 1) (sep_total A) (sep A) = Inr (ux, uy)"
    unfolding B1 by (simp add: average_steer_cpp_def A_def st [OF small(1,2)])
  have s5: "average_steer_cpp 10 ([b0, B1] ! 1) (ali_total A) (ali A) = Inr (1 + p0, p1)"
    unfolding B1 by (simp add: average_steer_cpp_def A_def st [OF small(3,4)])
  have "cohesion_steer_cpp 10 B1 1 (1 + p0, 2 + p1) = steer_cpp 10 B1 (p0 - 5 / 2, p1)"
    by (simp add: cohesion_steer_cpp_def B1)
  then have s6: "cohesion_steer_cpp 10 ([b0, B1] ! 1) (coh_total A) (coh A)
                 = Inr (p0 - 5 / 2, p1)"
    unfolding B1 by (simp add: A_def st [OF small(5,4)])
  have s7: "avoid_steer_cpp 10 ([b0, B1] ! 1) (0, 0) = Inr (0, 0)"
    unfolding B1 by (simp add: avoid_steer_cpp_def)
  have "magnitude (ux, uy) \<le> 10"
    using short_vector [of ux uy] ub by (simp add: magnitude_def power2_eq_square)
  then have s9: "limit_speed 10
             (vel_x ([b0, B1] ! 1) + (fst (ux, uy) * 1 + fst (1 + p0, p1) * 0
                + fst (p0 - 5 / 2, p1) * 0 + fst (0::real, 0::real) * 0 + fst (0::real, 0::real) * 0),
              vel_y ([b0, B1] ! 1) + (snd (ux, uy) * 1 + snd (1 + p0, p1) * 0
                + snd (p0 - 5 / 2, p1) * 0 + snd (0::real, 0::real) * 0 + snd (0::real, 0::real) * 0))
            = Inr (ux, uy)"
    unfolding B1 by (simp add: limit_speed_id)
  define b1 where "b1 = \<lparr>pos_x = 3.5 + (ux + p2), pos_y = 2 + (uy + p3),
                           vel_x = ux + p2, vel_y = uy + p3\<rparr>"
  have step1: "next_boid_cpp rnd [] [] 100 100 10 3 1 [] 1 0 0 0 0 [b0, B1] 1 = Inr b1"
    unfolding next_boid_cpp_stages [OF s1 s2 s3 s4 s5 s6 s7 s7 s9] B1
  proof -
    have "\<not> (7 / 2 + (ux + p2) < 0 \<or> 7 / 2 + (ux + p2) > 100)"
      "\<not> (2 + (uy + p3) < 0 \<or> 2 + (uy + p3) > 100)"
      using ub pb by linarith+
    then show "Inr (rebound_cpp 100 100
          \<lparr>pos_x = 7 / 2 + fst (perturb rnd 1 (ux, uy)),
             pos_y = 2 + snd (perturb rnd 1 (ux, uy)),
             vel_x = fst (perturb rnd 1 (ux, uy)), vel_y = snd (perturb rnd 1 (ux, uy))\<rparr>)
       = Inr b1"
      by (simp add: perturb_p rebound_cpp_def rebound_axis_cpp_def b1_def)
  qed
  have idx0: "[0..<length [B0, B1]] = [0, 1]"
    by (simp add: upt_rec)
  have run: "update_boids_cpp rnd [B0, B1] [] [] 100 100 10 1 3 1 [] 1 0 0 0 0
            = Inr \<lparr>caller = [b0, b1], returned = [b0, b1]\<rparr>"
  proof -
    have st0: "step_boid_cpp rnd [] [] 100 100 10 3 1 [] 1 0 0 0 0 0 [B0, B1] = Inr [b0, B1]"
      unfolding step_boid_cpp_def step0 by simp
    have st1: "step_boid_cpp rnd [] [] 100 100 10 3 1 [] 1 0 0 0 0 1 [b0, B1] = Inr [b0, b1]"
      unfolding step_boid_cpp_def step1 by simp
    show ?thesis
      unfolding update_boids_cpp_def idx0 by (simp only: loop.simps st0 st1 sum.case ebind_Inr)
  qed
  have "p2 < vel_x b1" "3.5 + p2 < pos_x b1"
    using uxpos by (simp_all add: b1_def)
  with run sync1 show ?thesis
    unfolding B0_def B1_def p_defs by blast
qed

text \<open>The same at the draws that are all \<open>1\<close>.\<close>

theorem later_boid_reads_updated_state_witness:
  "(\<forall>k. 0 \<le> const_draws 1 k \<and> const_draws 1 k \<le> 1)
   \<and> (\<exists>b0 b1.
           update_boids_cpp (const_draws 1)
             [\<lparr>pos_x = 0, pos_y = 2, vel_x = 1, vel_y = 0\<rparr>,
              \<lparr>pos_x = 3.5, pos_y = 2, vel_x = 0, vel_y = 0\<rparr>] [] [] 100 100 10 1 3 1 []
             1 0 0 0 0
           = Inr \<lparr>caller = [b0, b1], returned = [b0, b1]\<rparr>
         \<and> next_boid_cpp (const_draws 1) [] [] 100 100 10 3 1 [] 1 0 0 0 0
             [\<lparr>pos_x = 0, pos_y = 2, vel_x = 1, vel_y = 0\<rparr>,
              \<lparr>pos_x = 3.5, pos_y = 2, vel_x = 0, vel_y = 0\<rparr>] 1
           = Inr \<lparr>pos_x = 3.55, pos_y = 2.05, vel_x = 0.05, vel_y = 0.05\<rparr>
         \<and> 0.05 < vel_x b1 \<and> 3.55 < pos_x b1)"
proof -
  have draws: "\<forall>k. 0 \<le> const_draws 1 k \<and> const_draws 1 k \<le> 1"
    by (simp add: const_draws_def)
  have v: "(const_draws 1 2 - 0.5) * 0.1 = (0.05::real)"
    "(const_draws 1 3 - 0.5) * 0.1 = (0.05::real)"
    by (simp_all add: const_draws_def)
  from later_boid_reads_updated_state [OF draws] draws show ?thesis
    unfolding v by simp
qed

section \<open>Division by a distance\<close>

text \<open>
  C2, evaluated where it fails. Two agents at the same place, within a positive radius:
  the scan of boid \<open>0\<close> finds the other boid, the predator or the area at distance
  \<open>0 < 1\<close> and divides the displacement by that distance (lines 82-86, 110-112,
  125-127). Nothing guards the quotient, whatever the random draws are.
\<close>

theorem coincident_agents_divide_by_zero:
  "update_boids_cpp rnd [\<lparr>pos_x = 1, pos_y = 1, vel_x = 0, vel_y = 0\<rparr>,
                         \<lparr>pos_x = 1, pos_y = 1, vel_x = 0, vel_y = 0\<rparr>] [] [] 100 100 10 1
     1 1 [] 1 1 1 1 1 = Inl DivByZero
   \<and> update_boids_cpp rnd [\<lparr>pos_x = 1, pos_y = 1, vel_x = 0, vel_y = 0\<rparr>]
       [\<lparr>pos_x = 1, pos_y = 1, vel_x = 0, vel_y = 0\<rparr>] [] 100 100 10 1
       1 1 [] 1 1 1 1 1 = Inl DivByZero
   \<and> update_boids_cpp rnd [\<lparr>pos_x = 1, pos_y = 1, vel_x = 0, vel_y = 0\<rparr>] []
       [\<lparr>area_x = 1, area_y = 1\<rparr>] 100 100 10 1
       1 1 [1] 1 1 1 1 1 = Inl DivByZero"
  by (simp add: update_boids_cpp_def step_boid_cpp_def next_boid_cpp_def scan_boid_cpp_def
      scan_predator_cpp_def scan_area_cpp_def rd_def flock_acc0_def)

text \<open>
  The predator routine has the guard that the boid routine lacks (line 278, "Avoid
  division by zero"): chasing never divides by zero.
\<close>

lemma chase_guarded: "chase bs p c \<noteq> Inl DivByZero"
  by (auto simp: chase_def Let_def fdiv_def split: option.splits)

section \<open>What a call leaves of its arguments\<close>

text \<open>The simple variant assigns to none of the vectors it received.\<close>

lemma update_boids_keeps_input:
  "update_boids boids max_speed max_force vision_radius separation_radius width height = Inr out
   \<Longrightarrow> caller out = boids"
  by (auto simp: update_boids_def ebind_eq_Inr)

text \<open>A boid that moves with its own velocity is not where it was.\<close>

lemma rebound_axis_cpp_moved: "rebound_axis_cpp 100 (1 + v, v) \<noteq> (1, 1)"
  by (auto simp: rebound_axis_cpp_def)

text \<open>
  C3, evaluated where it fails. \<open>update_boids_cpp\<close> writes the new state into the vectors
  of the caller's data frame: after the call on one boid at \<open>(1, 1)\<close> with velocity
  \<open>(1, 0)\<close> the caller's frame is the frame returned and no longer the one passed,
  whatever the random draws are.
  \<open>update_predators_cpp\<close> does the same to the frame of the predators. The frames and
  vectors that the routines only read (predators, areas and radii in the boid routines,
  boids in the predator routine) are left as they are.
\<close>

theorem boid_moved_in_place:
  "\<exists>out. update_boids_cpp rnd [\<lparr>pos_x = 1, pos_y = 1, vel_x = 1, vel_y = 0\<rparr>] [] [] 100 100
            10 1 1 1 [] 1 1 1 1 1 = Inr out
         \<and> caller out \<noteq> [\<lparr>pos_x = 1, pos_y = 1, vel_x = 1, vel_y = 0\<rparr>]
         \<and> returned out = caller out"
proof -
  let ?B = "\<lparr>pos_x = 1, pos_y = 1, vel_x = 1, vel_y = (0::real)\<rparr>"
  define w where "w = perturb rnd 0 (1, 0)"
  define b where "b = rebound_cpp 100 100
    \<lparr>pos_x = 1 + fst w, pos_y = 1 + snd w, vel_x = fst w, vel_y = snd w\<rparr>"
  have "next_boid_cpp rnd [] [] 100 100 10 1 1 [] 1 1 1 1 1 [?B] 0 = Inr b"
    by (simp add: next_boid_cpp_def scan_boid_cpp_def flock_acc0_def average_steer_cpp_def
        cohesion_steer_cpp_def avoid_steer_cpp_def limit_speed_def b_def w_def Let_def)
  then have run: "update_boids_cpp rnd [?B] [] [] 100 100 10 1 1 1 [] 1 1 1 1 1
     = Inr \<lparr>caller = [b], returned = [b]\<rparr>"
    by (simp add: update_boids_cpp_def step_boid_cpp_def)
  have "(pos_x b, vel_x b) = rebound_axis_cpp 100 (1 + fst w, fst w)"
    by (simp add: b_def rebound_cpp_fields)
  then have "(pos_x b, vel_x b) \<noteq> (1, 1)"
    by (simp only: rebound_axis_cpp_moved not_False_eq_True)
  then have "b \<noteq> ?B" by auto
  with run show ?thesis by simp
qed

section \<open>The radii of the hazard areas\<close>

text \<open>
  Of all the statements of \<open>update_boids_cpp\<close> only the read of \<open>area_radius[k]\<close> can leave
  its vector, and it does so exactly when \<open>k\<close> is not below the vector's length.
\<close>

lemma fdiv_in_bounds: "fdiv a b \<noteq> Inl OutOfBounds"
  by (simp add: fdiv_def)

lemma quotients_in_bounds:
  "(\<And>q0 q1. f q0 q1 \<noteq> Inl OutOfBounds) \<Longrightarrow>
   ebind (fdiv a b) (\<lambda>q0. ebind (fdiv c d) (\<lambda>q1. f q0 q1)) \<noteq> Inl OutOfBounds"
  by (intro ebind_no_error fdiv_in_bounds)

lemma limit_in_bounds: "limit max_speed v \<noteq> Inl OutOfBounds"
  by (simp add: limit_def Let_def quotients_in_bounds)

lemma limit_speed_in_bounds: "limit_speed max_speed v \<noteq> Inl OutOfBounds"
  by (simp add: limit_speed_def Let_def quotients_in_bounds)

lemma steer_cpp_in_bounds: "steer_cpp max_speed b v \<noteq> Inl OutOfBounds"
  unfolding steer_cpp_def by (intro ebind_no_error limit_in_bounds)

lemma average_steer_cpp_in_bounds: "average_steer_cpp max_speed b n v \<noteq> Inl OutOfBounds"
  by (simp add: average_steer_cpp_def quotients_in_bounds steer_cpp_in_bounds)

lemma cohesion_steer_cpp_in_bounds: "cohesion_steer_cpp max_speed b n v \<noteq> Inl OutOfBounds"
  by (simp add: cohesion_steer_cpp_def quotients_in_bounds steer_cpp_in_bounds)

lemma avoid_steer_cpp_in_bounds: "avoid_steer_cpp max_speed b v \<noteq> Inl OutOfBounds"
  by (simp add: avoid_steer_cpp_def steer_cpp_in_bounds)

lemma scan_boid_cpp_in_bounds: "scan_boid_cpp bs r i j a \<noteq> Inl OutOfBounds"
  by (simp add: scan_boid_cpp_def Let_def quotients_in_bounds)

lemma scan_predator_cpp_in_bounds: "scan_predator_cpp bs ps r i k v \<noteq> Inl OutOfBounds"
  by (simp add: scan_predator_cpp_def Let_def quotients_in_bounds)

lemma scan_area_cpp_in_bounds:
  "k < length area_radius \<Longrightarrow> scan_area_cpp bs areas area_radius i k v \<noteq> Inl OutOfBounds"
  by (simp add: scan_area_cpp_def Let_def rd_def quotients_in_bounds)

lemma scan_area_cpp_out_of_bounds:
  "length area_radius \<le> k \<Longrightarrow> scan_area_cpp bs areas area_radius i k v = Inl OutOfBounds"
  by (simp add: scan_area_cpp_def Let_def rd_def)

lemma next_boid_cpp_in_bounds:
  assumes "length areas \<le> length area_radius"
  shows "next_boid_cpp rnd predators areas width height max_speed neighbor_radius
     predator_radius area_radius separation_weight alignment_weight cohesion_weight
     predator_avoid_weight area_avoid_weight bs i \<noteq> Inl OutOfBounds"
  unfolding next_boid_cpp_def Let_def
  using assms
  by (intro ebind_no_error loop_no_error scan_boid_cpp_in_bounds scan_predator_cpp_in_bounds
      scan_area_cpp_in_bounds average_steer_cpp_in_bounds cohesion_steer_cpp_in_bounds
      avoid_steer_cpp_in_bounds limit_speed_in_bounds) auto

text \<open>
  C4, as the code has it. The routine reads \<open>area_radius[k]\<close> for the indices \<open>k\<close> of the
  frame of areas and checks no length: when the vector of radii has at least as many
  entries as the frame has rows, no read leaves it; and a call on an empty flock returns
  the empty flock whatever the frames and the radii are, a vector of radii that is too
  short included.
\<close>

theorem radius_reads_in_bounds:
  "(length areas \<le> length area_radius \<longrightarrow>
      update_boids_cpp rnd boids predators areas width height max_speed max_force neighbor_radius
        predator_radius area_radius separation_weight alignment_weight cohesion_weight
        predator_avoid_weight area_avoid_weight \<noteq> Inl OutOfBounds)
   \<and> update_boids_cpp rnd [] predators areas width height max_speed max_force neighbor_radius
        predator_radius area_radius separation_weight alignment_weight cohesion_weight
        predator_avoid_weight area_avoid_weight = Inr \<lparr>caller = [], returned = []\<rparr>"
proof (intro conjI impI)
  assume len: "length areas \<le> length area_radius"
  show "update_boids_cpp rnd boids predators areas width height max_speed max_force neighbor_radius
        predator_radius area_radius separation_weight alignment_weight cohesion_weight
        predator_avoid_weight area_avoid_weight \<noteq> Inl OutOfBounds"
    unfolding update_boids_cpp_def step_boid_cpp_def
    by (intro ebind_no_error loop_no_error next_boid_cpp_in_bounds [OF len]) simp_all
next
  show "update_boids_cpp rnd [] predators areas width height max_speed max_force neighbor_radius
        predator_radius area_radius separation_weight alignment_weight cohesion_weight
        predator_avoid_weight area_avoid_weight = Inr \<lparr>caller = [], returned = []\<rparr>"
    by (simp add: update_boids_cpp_def)
qed

text \<open>One boid, one area and its radius.\<close>

theorem radius_reads_in_bounds_witness:
  "length [\<lparr>area_x = 5, area_y = 5\<rparr>] \<le> length [1::real]
   \<and> update_boids_cpp (const_draws 1) [\<lparr>pos_x = 1, pos_y = 1, vel_x = 0, vel_y = 0\<rparr>] []
       [\<lparr>area_x = 5, area_y = 5\<rparr>] 100 100 10 1 1 1 [1] 1 1 1 1 1 \<noteq> Inl OutOfBounds"
proof -
  have len: "length [\<lparr>area_x = 5, area_y = 5\<rparr>] \<le> length [1::real]" by simp
  show ?thesis
    using len radius_reads_in_bounds [of "[\<lparr>area_x = 5, area_y = 5\<rparr>]" "[1]" "const_draws 1"
        "[\<lparr>pos_x = 1, pos_y = 1, vel_x = 0, vel_y = 0\<rparr>]" "[]" 100 100 10 1 1 1 1 1 1 1 1]
    by blast
qed

text \<open>
  C4 as stated fails. One area and no radius: with no boid the call returns normally
  and reports nothing; with one boid the scan of the areas reads \<open>area_radius[0]\<close>,
  past the end of the empty vector.
\<close>

theorem short_radius_not_rejected:
  "length ([]::real list) < length [\<lparr>area_x = 5, area_y = 5\<rparr>]
   \<and> update_boids_cpp (const_draws 1) [] [] [\<lparr>area_x = 5, area_y = 5\<rparr>] 100 100 10 1 1 1 []
        1 1 1 1 1 = Inr \<lparr>caller = [], returned = []\<rparr>
   \<and> update_boids_cpp (const_draws 1) [\<lparr>pos_x = 1, pos_y = 1, vel_x = 0, vel_y = 0\<rparr>] []
        [\<lparr>area_x = 5, area_y = 5\<rparr>] 100 100 10 1 1 1 [] 1 1 1 1 1 = Inl OutOfBounds"
  by (simp add: update_boids_cpp_def step_boid_cpp_def next_boid_cpp_def scan_boid_cpp_def
      scan_area_cpp_def rd_def flock_acc0_def)

section \<open>The speed limit\<close>

lemma next_boid_speed:
  assumes "0 \<le> max_speed"
    and "next_boid max_speed max_force vision_radius separation_radius width height bs i = Inr b"
  shows "magnitude (vel_x b, vel_y b) \<le> max_speed"
proof -
  from next_boid_shape [OF assms(2)] obtain u v where
    v: "limit_speed max_speed u = Inr v" and
    b: "b = rebound width height
                 \<lparr>pos_x = pos_x (bs ! i) + fst v, pos_y = pos_y (bs ! i) + snd v,
                  vel_x = fst v, vel_y = snd v\<rparr>" by blast
  have "magnitude (vel_x b, vel_y b) \<le> magnitude (fst v, snd v)"
    unfolding b using rebound_velocity [of width height] by (metis agent.select_convs(3,4))
  also have "\<dots> \<le> max_speed"
    using limit_speed_bound [OF assms(1) v] by simp
  finally show ?thesis .
qed

lemma next_boid_cpp_speed:
  assumes "0 \<le> max_speed"
    and "next_boid_cpp rnd predators areas width height max_speed neighbor_radius
     predator_radius area_radius separation_weight alignment_weight cohesion_weight
     predator_avoid_weight area_avoid_weight bs i = Inr b"
  shows "magnitude (vel_x b, vel_y b) \<le> max_speed + magnitude (perturb rnd i (0, 0))"
proof -
  from next_boid_cpp_shape [OF assms(2)] obtain u v where
    v: "limit_speed max_speed u = Inr v" and
    b: "b = rebound_cpp width height
                 \<lparr>pos_x = pos_x (bs ! i) + fst (perturb rnd i v),
                  pos_y = pos_y (bs ! i) + snd (perturb rnd i v),
                  vel_x = fst (perturb rnd i v), vel_y = snd (perturb rnd i v)\<rparr>" by blast
  have "magnitude (vel_x b, vel_y b) = magnitude (perturb rnd i v)"
    unfolding b by (simp add: rebound_cpp_velocity)
  also have "\<dots> \<le> magnitude (fst v, snd v) + magnitude (perturb rnd i (0, 0))"
    using magnitude_triangle [of "fst v" _ "snd v"] by (simp add: perturb_def)
  also have "\<dots> \<le> max_speed + magnitude (perturb rnd i (0, 0))"
    using limit_speed_bound [OF assms(1) v] by simp
  finally show ?thesis .
qed

text \<open>
  C5, as the code has it. For a \<open>max_speed\<close> that is not negative, the speed-limiting step
  of a tick turns the composed velocity \<open>v\<close> into \<open>rescaled max_speed v\<close>, whose magnitude
  is the smaller of the magnitude of \<open>v\<close> and \<open>max_speed\<close>: at most \<open>max_speed\<close>, and exactly
  \<open>max_speed\<close> for a larger \<open>v\<close>, in the direction of \<open>v\<close>. The velocity that the simple
  variant returns for a boid is no longer than \<open>max_speed\<close> (the rebound damps it), and the
  one that the extended variant returns exceeds \<open>max_speed\<close> by no more than the magnitude
  of the perturbation it has added after limiting.
\<close>

theorem speed_limited:
  assumes "0 \<le> max_speed"
  shows "limit_speed max_speed v = Inr (rescaled max_speed v)
       \<and> magnitude (rescaled max_speed v) = min (magnitude v) max_speed
       \<and> (next_boid max_speed max_force vision_radius separation_radius width height bs i = Inr b
            \<longrightarrow> magnitude (vel_x b, vel_y b) \<le> max_speed)
       \<and> (next_boid_cpp rnd predators areas width' height' max_speed neighbor_radius
             predator_radius area_radius separation_weight alignment_weight cohesion_weight
             predator_avoid_weight area_avoid_weight bs' i' = Inr b'
            \<longrightarrow> magnitude (vel_x b', vel_y b') \<le> max_speed + magnitude (perturb rnd i' (0, 0)))"
proof (intro conjI impI)
  show "limit_speed max_speed v = Inr (rescaled max_speed v)"
    unfolding rescaled_def by (rule limit_speed_value [OF assms])
  show "magnitude (rescaled max_speed v) = min (magnitude v) max_speed"
    unfolding rescaled_def by (rule limit_speed_magnitude [OF assms])
next
  assume "next_boid max_speed max_force vision_radius separation_radius width height bs i = Inr b"
  then show "magnitude (vel_x b, vel_y b) \<le> max_speed"
    by (rule next_boid_speed [OF assms])
next
  assume "next_boid_cpp rnd predators areas width' height' max_speed neighbor_radius
             predator_radius area_radius separation_weight alignment_weight cohesion_weight
             predator_avoid_weight area_avoid_weight bs' i' = Inr b'"
  then show "magnitude (vel_x b', vel_y b') \<le> max_speed + magnitude (perturb rnd i' (0, 0))"
    by (rule next_boid_cpp_speed [OF assms])
qed

text \<open>At \<open>max_speed = 2\<close>: the velocity \<open>(3, 4)\<close>, and one boid in either variant.\<close>

theorem speed_limited_witness:
  "(0::real) \<le> 2
   \<and> limit_speed 2 (3, 4) = Inr (6 / 5, 8 / 5) \<and> magnitude (6 / 5, 8 / 5) = 2
   \<and> rescaled 2 (3, 4) = (6 / 5, 8 / 5)
   \<and> next_boid 2 1 10 5 100 100 [\<lparr>pos_x = 0, pos_y = 0, vel_x = -1, vel_y = -1\<rparr>] 0
       = Inr \<lparr>pos_x = 0, pos_y = 0, vel_x = 0.9, vel_y = 0.9\<rparr>
   \<and> magnitude (0.9, 0.9) \<le> 2
   \<and> next_boid_cpp (const_draws 1) [] [] 100 100 2 1 1 [] 1 1 1 1 1
        [\<lparr>pos_x = 1, pos_y = 1, vel_x = 1, vel_y = 0\<rparr>] 0
       = Inr \<lparr>pos_x = 2.05, pos_y = 1.05, vel_x = 1.05, vel_y = 0.05\<rparr>
   \<and> magnitude (1.05, 0.05) \<le> 2 + magnitude (perturb (const_draws 1) 0 (0, 0))"
proof -
  have m: "(0::real) \<le> 2" by simp
  have mag: "magnitude (3, 4) = 5"
    by (simp add: magnitude_def sqrt_25)
  have simple: "next_boid 2 1 10 5 100 100 [\<lparr>pos_x = 0, pos_y = 0, vel_x = -1, vel_y = -1\<rparr>] 0
       = Inr \<lparr>pos_x = 0, pos_y = 0, vel_x = 0.9, vel_y = 0.9\<rparr>"
    by (simp add: next_boid_def scan_boid_def acc0_def separation_def alignment_def
        cohesion_def limit_speed_def rebound_def rebound_axis_def less_sqrt_iff_sq)
  have cpp: "next_boid_cpp (const_draws 1) [] [] 100 100 2 1 1 [] 1 1 1 1 1
        [\<lparr>pos_x = 1, pos_y = 1, vel_x = 1, vel_y = 0\<rparr>] 0
       = Inr \<lparr>pos_x = 2.05, pos_y = 1.05, vel_x = 1.05, vel_y = 0.05\<rparr>"
    by (simp add: eval_cpp const_draws_def)
  have r: "rescaled 2 (3, 4) = (6 / 5, 8 / 5)"
    by (simp add: rescaled_def mag)
  from speed_limited [OF m, of "(3, 4)" 1 10 5 100 100
      "[\<lparr>pos_x = 0, pos_y = 0, vel_x = -1, vel_y = -1\<rparr>]" 0
      "\<lparr>pos_x = 0, pos_y = 0, vel_x = 0.9, vel_y = 0.9\<rparr>"
      "const_draws 1" "[]" "[]" 100 100 1 1 "[]" 1 1 1 1 1
      "[\<lparr>pos_x = 1, pos_y = 1, vel_x = 1, vel_y = 0\<rparr>]" 0
      "\<lparr>pos_x = 2.05, pos_y = 1.05, vel_x = 1.05, vel_y = 0.05\<rparr>"]
  show ?thesis
    unfolding r mag simple cpp by simp
qed

text \<open>
  C5 as stated fails for a negative \<open>max_speed\<close>, which the routines accept: every speed
  exceeds it, the velocity \<open>(1, 0)\<close> is rescaled to \<open>(-1, 0)\<close>, and the boid is returned
  with a velocity of magnitude \<open>1\<close>, above \<open>max_speed = -1\<close>.
\<close>

theorem negative_max_speed_exceeded:
  "limit_speed (- 1) (1, 0) = Inr (- 1, 0)
   \<and> update_boids [\<lparr>pos_x = 5, pos_y = 5, vel_x = 1, vel_y = 0\<rparr>] (- 1) 1 10 5 100 100
       = Inr \<lparr>caller = [\<lparr>pos_x = 5, pos_y = 5, vel_x = 1, vel_y = 0\<rparr>],
              returned = [\<lparr>pos_x = 4, pos_y = 5, vel_x = - 1, vel_y = 0\<rparr>]\<rparr>
   \<and> \<not> magnitude (- 1, 0) \<le> - 1"
  by (simp add: update_boids_def step_boid_def next_boid_def scan_boid_def acc0_def
      separation_def alignment_def cohesion_def limit_speed_def rebound_def rebound_axis_def
      magnitude_def)

section \<open>Positions after a tick\<close>

text \<open>
  The simple variant never divides by zero when \<open>max_speed\<close> is not negative: each of
  its quotients is guarded by a test of the divisor.
\<close>

lemma seek_total: "\<exists>w. seek max_speed max_force b v = Inr w"
  by (simp add: seek_def Let_def fdiv_def)

lemma separation_total: "\<exists>w. separation max_speed max_force b a = Inr w"
  by (simp add: separation_def seek_total del: split_paired_Ex)

lemma alignment_total: "\<exists>w. alignment max_speed max_force b a = Inr w"
  by (simp add: alignment_def seek_total del: split_paired_Ex)

lemma cohesion_total: "\<exists>w. cohesion max_speed max_force b a = Inr w"
  by (simp add: cohesion_def seek_total del: split_paired_Ex)

lemma next_boid_total:
  assumes "0 \<le> max_speed"
  shows "\<exists>b. next_boid max_speed max_force vision_radius separation_radius width height bs i = Inr b"
proof -
  let ?a = "fold (scan_boid bs separation_radius vision_radius i) [0..<length bs] acc0"
  obtain s where s: "separation max_speed max_force (bs ! i) ?a = Inr s"
    using separation_total [of max_speed max_force "bs ! i" ?a] by blast
  obtain al where al: "alignment max_speed max_force (bs ! i) ?a = Inr al"
    using alignment_total [of max_speed max_force "bs ! i" ?a] by blast
  obtain c where c: "cohesion max_speed max_force (bs ! i) ?a = Inr c"
    using cohesion_total [of max_speed max_force "bs ! i" ?a] by blast
  from s al c show ?thesis
    by (simp add: next_boid_def limit_speed_value [OF assms])
qed

lemma next_boid_in_domain:
  assumes "0 \<le> width" "0 \<le> height"
    and "next_boid max_speed max_force vision_radius separation_radius width height bs i = Inr b"
  shows "in_domain width height b"
  using next_boid_shape [OF assms(3)] rebound_in_domain [OF assms(1,2)] by auto

lemma next_boid_cpp_in_domain:
  assumes "0 \<le> width" "0 \<le> height"
    and "next_boid_cpp rnd predators areas width height max_speed neighbor_radius
     predator_radius area_radius separation_weight alignment_weight cohesion_weight
     predator_avoid_weight area_avoid_weight bs i = Inr b"
  shows "in_domain width height b"
  using next_boid_cpp_shape [OF assms(3)] rebound_cpp_in_domain [OF assms(1,2)] by auto

text \<open>
  C6, as the code has it. With \<open>width\<close> and \<open>height\<close> not negative, every tick of either
  routine that completes without a division by zero returns as many boids as it
  received, each at a position inside \<open>[0, width] \<times> [0, height]\<close>; and the simple variant
  completes so whenever \<open>max_speed\<close> is not negative.
\<close>

theorem positions_in_domain:
  assumes "0 \<le> width" "0 \<le> height"
  shows "(0 \<le> max_speed \<longrightarrow>
            (\<exists>out. update_boids boids max_speed max_force vision_radius separation_radius
                     width height = Inr out))
       \<and> (update_boids boids max_speed max_force vision_radius separation_radius width height
             = Inr out \<longrightarrow>
            length (returned out) = length boids \<and>
            (\<forall>b \<in> set (returned out). in_domain width height b))
       \<and> (update_boids_cpp rnd boids' predators areas width height max_speed' max_force'
             neighbor_radius predator_radius area_radius separation_weight alignment_weight
             cohesion_weight predator_avoid_weight area_avoid_weight = Inr out' \<longrightarrow>
            length (returned out') = length boids' \<and>
            (\<forall>b \<in> set (returned out'). in_domain width height b))"
proof (intro conjI impI)
  assume "0 \<le> max_speed"
  then have "\<exists>vs. collect (next_boid max_speed max_force vision_radius separation_radius width
                            height boids) [0..<length boids] = Inr vs"
    by (intro collect_total next_boid_total)
  then show "\<exists>out. update_boids boids max_speed max_force vision_radius separation_radius
                     width height = Inr out"
    unfolding update_boids_reads_input_only by auto
next
  assume "update_boids boids max_speed max_force vision_radius separation_radius width height
             = Inr out"
  then have c: "collect (next_boid max_speed max_force vision_radius separation_radius width
                     height boids) [0..<length boids] = Inr (returned out)"
    unfolding update_boids_reads_input_only ebind_eq_Inr by auto
  from collect_length [OF c] show "length (returned out) = length boids" by simp
  show "\<forall>b \<in> set (returned out). in_domain width height b"
    by (rule collect_all [OF c]) (rule next_boid_in_domain [OF assms])
next
  assume "update_boids_cpp rnd boids' predators areas width height max_speed' max_force'
             neighbor_radius predator_radius area_radius separation_weight alignment_weight
             cohesion_weight predator_avoid_weight area_avoid_weight = Inr out'"
  then have "loop (step_boid_cpp rnd predators areas width height max_speed'
                    neighbor_radius predator_radius area_radius separation_weight
                    alignment_weight cohesion_weight predator_avoid_weight area_avoid_weight)
               [0..<length boids'] boids' = Inr (returned out')"
    unfolding update_boids_cpp_def ebind_eq_Inr by auto
  then have l: "loop (\<lambda>i s. ebind (next_boid_cpp rnd predators areas width height max_speed'
                    neighbor_radius predator_radius area_radius separation_weight
                    alignment_weight cohesion_weight predator_avoid_weight area_avoid_weight s i)
                  (\<lambda>b. Inr (s[i := b]))) [0..<length boids'] boids' = Inr (returned out')"
    unfolding step_boid_cpp_def [abs_def] .
  have w: "length (returned out') = length boids' \<and>
        (\<forall>i<length boids'. i < length boids' \<longrightarrow> in_domain width height (returned out' ! i))"
    by (rule loop_writes [OF _ l]) (rule next_boid_cpp_in_domain [OF assms])
  then show "length (returned out') = length boids'" by simp
  from w show "\<forall>b \<in> set (returned out'). in_domain width height b"
    by (auto simp: in_set_conv_nth)
qed

text \<open>One boid in either variant, in a domain of \<open>100 \<times> 100\<close>.\<close>

theorem positions_in_domain_witness:
  "(0::real) \<le> 100 \<and> (0::real) \<le> 2
   \<and> update_boids [\<lparr>pos_x = 0, pos_y = 0, vel_x = -1, vel_y = -1\<rparr>] 2 1 10 5 100 100
       = Inr \<lparr>caller = [\<lparr>pos_x = 0, pos_y = 0, vel_x = -1, vel_y = -1\<rparr>],
              returned = [\<lparr>pos_x = 0, pos_y = 0, vel_x = 0.9, vel_y = 0.9\<rparr>]\<rparr>
   \<and> in_domain 100 100 \<lparr>pos_x = 0, pos_y = 0, vel_x = 0.9, vel_y = 0.9\<rparr>
   \<and> update_boids_cpp (const_draws 1) [\<lparr>pos_x = 1, pos_y = 1, vel_x = 1, vel_y = 0\<rparr>] [] []
        100 100 10 1 1 1 [] 1 1 1 1 1
       = Inr \<lparr>caller = [\<lparr>pos_x = 2.05, pos_y = 1.05, vel_x = 1.05, vel_y = 0.05\<rparr>],
              returned = [\<lparr>pos_x = 2.05, pos_y = 1.05, vel_x = 1.05, vel_y = 0.05\<rparr>]\<rparr>
   \<and> in_domain 100 100 \<lparr>pos_x = 2.05, pos_y = 1.05, vel_x = 1.05, vel_y = 0.05\<rparr>"
proof -
  have w: "(0::real) \<le> 100" and m: "(0::real) \<le> 2" by simp_all
  have simple: "update_boids [\<lparr>pos_x = 0, pos_y = 0, vel_x = -1, vel_y = -1\<rparr>] 2 1 10 5 100 100
       = Inr \<lparr>caller = [\<lparr>pos_x = 0, pos_y = 0, vel_x = -1, vel_y = -1\<rparr>],
              returned = [\<lparr>pos_x = 0, pos_y = 0, vel_x = 0.9, vel_y = 0.9\<rparr>]\<rparr>"
    by (simp add: update_boids_def step_boid_def next_boid_def scan_boid_def acc0_def
        separation_def alignment_def cohesion_def limit_speed_def rebound_def rebound_axis_def
        less_sqrt_iff_sq)
  have cpp: "update_boids_cpp (const_draws 1) [\<lparr>pos_x = 1, pos_y = 1, vel_x = 1, vel_y = 0\<rparr>]
        [] [] 100 100 10 1 1 1 [] 1 1 1 1 1
       = Inr \<lparr>caller = [\<lparr>pos_x = 2.05, pos_y = 1.05, vel_x = 1.05, vel_y = 0.05\<rparr>],
              returned = [\<lparr>pos_x = 2.05, pos_y = 1.05, vel_x = 1.05, vel_y = 0.05\<rparr>]\<rparr>"
    by (simp add: eval_cpp const_draws_def)
  from positions_in_domain [OF w w, of 2
      "[\<lparr>pos_x = 0, pos_y = 0, vel_x = -1, vel_y = -1\<rparr>]" 1 10 5
      "\<lparr>caller = [\<lparr>pos_x = 0, pos_y = 0, vel_x = -1, vel_y = -1\<rparr>],
              returned = [\<lparr>pos_x = 0, pos_y = 0, vel_x = 0.9, vel_y = 0.9\<rparr>]\<rparr>"
      "const_draws 1" "[\<lparr>pos_x = 1, pos_y = 1, vel_x = 1, vel_y = 0\<rparr>]" "[]" "[]" 10 1 1 1
      "[]" 1 1 1 1 1
      "\<lparr>caller = [\<lparr>pos_x = 2.05, pos_y = 1.05, vel_x = 1.05, vel_y = 0.05\<rparr>],
              returned = [\<lparr>pos_x = 2.05, pos_y = 1.05, vel_x = 1.05, vel_y = 0.05\<rparr>]\<rparr>"]
    simple cpp
  show ?thesis by simp
qed

text \<open>
  C6 as stated fails where a tick divides by zero. The routines accept a negative
  \<open>max_speed\<close>; a boid at rest then has speed \<open>0 > max_speed\<close>, and the speed limit divides
  its velocity by that speed (lines 102-106): the position returned is the sum of \<open>5\<close>
  and a NaN, inside no rectangle.
\<close>

theorem negative_max_speed_no_position:
  "(0::real) \<le> 100
   \<and> update_boids [\<lparr>pos_x = 5, pos_y = 5, vel_x = 0, vel_y = 0\<rparr>] (- 1) 1 10 5 100 100
       = Inl DivByZero"
  by (simp add: update_boids_def step_boid_def next_boid_def scan_boid_def acc0_def
      separation_def alignment_def cohesion_def limit_speed_def)

section \<open>The predators without boids\<close>









section \<open>A single boid in the corner\<close>

text \<open>
  C8. One boid at \<open>(0, 0)\<close> with velocity \<open>(-1, -1)\<close> in a domain of \<open>100 \<times> 100\<close>, with
  \<open>max_speed\<close> at least \<open>sqrt 2\<close>: the simple variant returns it at \<open>(0, 0)\<close> with velocity
  \<open>(0.9, 0.9)\<close>, whatever the force limit and the radii are.
\<close>

theorem single_boid_corner:
  assumes "sqrt 2 \<le> max_speed"
  shows "update_boids [\<lparr>pos_x = 0, pos_y = 0, vel_x = -1, vel_y = -1\<rparr>] max_speed max_force
           vision_radius separation_radius 100 100
         = Inr \<lparr>caller = [\<lparr>pos_x = 0, pos_y = 0, vel_x = -1, vel_y = -1\<rparr>],
                returned = [\<lparr>pos_x = 0, pos_y = 0, vel_x = 0.9, vel_y = 0.9\<rparr>]\<rparr>"
  using assms
  by (simp add: update_boids_def step_boid_def next_boid_def scan_boid_def acc0_def
      separation_def alignment_def cohesion_def limit_speed_def rebound_def rebound_axis_def)

text \<open>At \<open>max_speed = 2\<close>.\<close>

theorem single_boid_corner_witness:
  "sqrt 2 \<le> (2::real) \<and>
   update_boids [\<lparr>pos_x = 0, pos_y = 0, vel_x = -1, vel_y = -1\<rparr>] 2 1 10 5 100 100
   = Inr \<lparr>caller = [\<lparr>pos_x = 0, pos_y = 0, vel_x = -1, vel_y = -1\<rparr>],
          returned = [\<lparr>pos_x = 0, pos_y = 0, vel_x = 0.9, vel_y = 0.9\<rparr>]\<rparr>"
proof -
  have h: "sqrt 2 \<le> (2::real)"
    by (rule real_le_lsqrt) simp_all
  show ?thesis using h single_boid_corner [OF h, of 1 10 5] by simp
qed

section \<open>The separation threshold\<close>



section \<open>The force limit of the extended variant\<close>

text \<open>
  C10. \<open>update_boids_cpp\<close> takes \<open>max_force\<close> and never reads it: two calls that differ in
  \<open>max_force\<close> alone (same frames, same parameters, same random draws) have the same
  outcome. Every steering vector is limited by \<open>limit\<close>, against \<open>max_speed\<close>.
\<close>

theorem max_force_irrelevant:
  "update_boids_cpp rnd boids predators areas width height max_speed max_force neighbor_radius
     predator_radius area_radius separation_weight alignment_weight cohesion_weight
     predator_avoid_weight area_avoid_weight
   = update_boids_cpp rnd boids predators areas width height max_speed max_force' neighbor_radius
     predator_radius area_radius separation_weight alignment_weight cohesion_weight
     predator_avoid_weight area_avoid_weight"
  by (simp add: update_boids_cpp_def)

end
